theory Spec2Isabelle
  imports Complex_Main "HOL-Library.Sublist" "HOL-Library.Log_Nat"
begin

section \<open>Numbers of the source\<close>

text \<open>
  The source is TypeScript, so every number is an IEEE-754 double. The model computes with
  rationals and makes the rounding of the doubles explicit where it matters.

  A variable of type \<open>rat\<close> holds the exact value of a double. On integers below \<open>2 ^ 53\<close>,
  such as the emission figures and the credit counts, double addition and multiplication
  are exact, so the sums and products of such figures are written without rounding.

  \<open>fl x\<close> is the double nearest to \<open>x\<close> (round to nearest, ties to even, 53 significant
  bits, subnormal numbers below \<open>2 ^ - 1022\<close>); overflow to \<open>Infinity\<close> beyond the largest
  double is not modelled. The decimal literal \<open>0.4\<close> is \<open>fl (2 / 5)\<close>.
\<close>

definition binade :: "rat \<Rightarrow> int" where
  \<comment> \<open>for \<open>0 < a\<close>, the exponent \<open>e\<close> with \<open>2 ^ e \<le> a < 2 ^ (e + 1)\<close>\<close>
  "binade a =
     (let (p, q) = quotient_of a; d = bitlen p - bitlen q
      in if power_int 2 d \<le> a then d else d - 1)"

definition fl :: "rat \<Rightarrow> rat" where
  "fl x =
     (if x = 0 then 0
      else let a = \<bar>x\<bar>;
               u = power_int 2 (max (binade a) (- 1022) - 52);
               m = \<lfloor>a / u\<rfloor>;
               r = a / u - of_int m;
               n = (if r < 1 / 2 then m else if 1 / 2 < r then m + 1
                    else if even m then m else m + 1)
           in sgn x * (of_int n * u))"

text \<open>
  The result of a division or of a multiplication that follows one is a \<open>jsnum\<close>. A finite
  result \<open>Num q\<close> carries the exact quotient or product \<open>q\<close> of its operands and stands for
  the double \<open>fl q\<close>: whatever consumes it (\<open>js_mul\<close>, \<open>toFixed\<close>) rounds it first. Division
  never throws in JavaScript: a zero divisor gives \<open>Infinity\<close>, \<open>-Infinity\<close> or \<open>NaN\<close>, which
  are kept apart from the finite values.
\<close>

datatype jsnum = Num rat | PosInfinity | NegInfinity | NaN

definition js_div :: "rat \<Rightarrow> rat \<Rightarrow> jsnum" where
  \<comment> \<open>\<open>a / b\<close> on finite doubles\<close>
  "js_div a b =
     (if b = 0 then (if 0 < a then PosInfinity else if a < 0 then NegInfinity else NaN)
      else Num (a / b))"

fun js_mul :: "jsnum \<Rightarrow> rat \<Rightarrow> jsnum" where
  \<comment> \<open>\<open>v * b\<close> for a finite double \<open>b\<close>\<close>
  "js_mul (Num a) b = Num (fl a * b)"
| "js_mul PosInfinity b = (if 0 < b then PosInfinity else if b < 0 then NegInfinity else NaN)"
| "js_mul NegInfinity b = (if 0 < b then NegInfinity else if b < 0 then PosInfinity else NaN)"
| "js_mul NaN b = NaN"

text \<open>
  \<open>Number.prototype.toFixed(f)\<close> returns a string. The model returns the number that string
  writes out: for a double \<open>x\<close> below \<open>10 ^ 21\<close> in magnitude the integer \<open>n\<close> nearest to
  \<open>x * 10 ^ f\<close> (the larger one at a tie, on the magnitude) over \<open>10 ^ f\<close>; from \<open>10 ^ 21\<close>
  on, and for the non-finite values, the number itself. In the result of \<open>toFixed\<close> the
  \<open>Num\<close> holds this decimal exactly.
\<close>

definition toFixed_rat :: "nat \<Rightarrow> rat \<Rightarrow> rat" where
  "toFixed_rat f x =
     (if 10 ^ 21 \<le> \<bar>x\<bar> then x
      else if x < 0 then - (of_int \<lfloor>(- x) * 10 ^ f + 1 / 2\<rfloor> / 10 ^ f)
      else of_int \<lfloor>x * 10 ^ f + 1 / 2\<rfloor> / 10 ^ f)"

fun toFixed :: "nat \<Rightarrow> jsnum \<Rightarrow> jsnum" where
  "toFixed f (Num x) = Num (toFixed_rat f (fl x))"
| "toFixed f PosInfinity = PosInfinity"
| "toFixed f NegInfinity = NegInfinity"
| "toFixed f NaN = NaN"

section \<open>Outcomes\<close>

text \<open>
  The specification names two error kinds. A function of the source is modelled with the
  result type \<open>failure + 'a\<close>, one \<open>Inl\<close> branch for each \<open>throw\<close> it contains.
\<close>

datatype failure = InvalidInput | InvalidConfiguration

section \<open>The component \<open>EmissionTracker\<close> (pages/EmissionTracker.tsx)\<close>

text \<open>The four form fields, each a string held by \<open>useState("")\<close> (lines 13 to 16).\<close>

record tracker_state =
  cookingFuel :: string
  fuelAmount :: string
  generatorHours :: string
  wasteAmount :: string

text \<open>The object literal \<open>monthlyEmissions\<close> (lines 18 to 23), in kg of CO2.\<close>

record MonthlyEmissions =
  cooking :: rat
  electricity :: rat
  transport :: rat
  waste :: rat

definition monthlyEmissions :: MonthlyEmissions where
  "monthlyEmissions = \<lparr>cooking = 45, electricity = 32, transport = 28, waste = 15\<rparr>"

definition Object_values :: "MonthlyEmissions \<Rightarrow> rat list" where
  \<comment> \<open>the values in the insertion order of the keys\<close>
  "Object_values m = [cooking m, electricity m, transport m, waste m]"

definition totalEmissions :: "MonthlyEmissions \<Rightarrow> rat" where
  \<comment> \<open>line 25: \<open>Object.values(monthlyEmissions).reduce((a, b) => a + b, 0)\<close>\<close>
  "totalEmissions m = foldl (\<lambda>a b. a + b) 0 (Object_values m)"

definition yearlyEmissions :: "rat \<Rightarrow> rat" where
  \<comment> \<open>line 26: \<open>totalEmissions * 12\<close>\<close>
  "yearlyEmissions monthly = monthly * 12"

definition tonsPerYear :: "rat \<Rightarrow> jsnum" where
  \<comment> \<open>lines 177 and 247: \<open>yearlyEmissions / 1000\<close>\<close>
  "tonsPerYear yearly = js_div yearly 1000"

definition creditsToOffset :: "rat \<Rightarrow> jsnum" where
  \<comment> \<open>line 198: \<open>yearlyEmissions / 2000\<close>\<close>
  "creditsToOffset yearly = js_div yearly 2000"

definition remainingTons :: "rat \<Rightarrow> jsnum" where
  \<comment> \<open>line 299: \<open>(yearlyEmissions * 0.4) / 1000\<close>\<close>
  "remainingTons yearly = js_div (fl (yearly * fl (2 / 5))) 1000"

definition offsetCost :: "rat \<Rightarrow> jsnum" where
  \<comment> \<open>line 302: \<open>(yearlyEmissions * 0.4) / 1000 * 15\<close>\<close>
  "offsetCost yearly = js_mul (js_div (fl (yearly * fl (2 / 5))) 1000) 15"

text \<open>
  The three offset figures the component prints (lines 198, 299 and 302), each through
  \<open>toFixed\<close>.
\<close>

record offset_view =
  credits_shown :: jsnum
  remaining_tons_shown :: jsnum
  cost_shown :: jsnum

definition offsetFigures :: "rat \<Rightarrow> offset_view" where
  "offsetFigures yearly =
     \<lparr>credits_shown = toFixed 1 (creditsToOffset yearly),
      remaining_tons_shown = toFixed 1 (remainingTons yearly),
      cost_shown = toFixed 0 (offsetCost yearly)\<rparr>"

text \<open>
  What one rendering of the component computes from its state: the breakdown, the two
  locals \<open>totalEmissions\<close> and \<open>yearlyEmissions\<close>, the tonnage printed on lines 177 and 247,
  and the offset figures. The progress-bar percentages and the static recommendation cards
  are left out. The body reads none of the four state variables: they only feed the
  \<open>value\<close> attributes of the form controls. It contains no \<open>throw\<close> and no call that can
  throw (\<open>toFixed\<close> is called with the digits 1 and 0), so the outcome is always a normal
  one.
\<close>

record tracker_view =
  breakdown :: MonthlyEmissions
  total_kg :: rat
  yearly_kg :: rat
  tons_shown :: jsnum
  offset :: offset_view

definition EmissionTracker :: "tracker_state \<Rightarrow> failure + tracker_view" where
  "EmissionTracker st =
     (let monthly = totalEmissions monthlyEmissions;
          yearly = yearlyEmissions monthly
      in Inr \<lparr>breakdown = monthlyEmissions, total_kg = monthly, yearly_kg = yearly,
              tons_shown = toFixed 1 (tonsPerYear yearly),
              offset = offsetFigures yearly\<rparr>)"

section \<open>The component \<open>Marketplace\<close> (the second component of components/Navigation.tsx)\<close>

text \<open>
  One entry of the array literal \<open>carbonCredits\<close>. The source's fields \<open>id\<close>, \<open>type\<close> and
  \<open>image\<close> are renamed, as these names are taken in HOL; an imported image is represented
  by the name of its import. A price or a rating is kept as the decimal its literal writes.
\<close>

record credit =
  credit_id :: nat
  name :: string
  location :: string
  credit_type :: string
  price :: rat
  totalCredits :: rat
  availableCredits :: rat
  sequestrationRate :: rat
  verification :: string
  rating :: rat
  image_src :: string
  impact :: string

definition carbonCredits :: "credit list" where
  "carbonCredits =
     [\<lparr>credit_id = 1, name = ''Kenyan Agroforestry Project'',
       location = ''Nakuru County, Kenya'', credit_type = ''Agroforestry'',
       price = 25 / 2, totalCredits = 1000, availableCredits = 750,
       sequestrationRate = 85, verification = ''AI + Satellite'', rating = 49 / 10,
       image_src = ''kenyanAgroforestryImg'',
       impact = ''Supporting 200 farming families while restoring degraded land''\<rparr>,
      \<lparr>credit_id = 2, name = ''Nigerian Mangrove Restoration'',
       location = ''Niger Delta, Nigeria'', credit_type = ''Coastal Restoration'',
       price = 75 / 4, totalCredits = 500, availableCredits = 320,
       sequestrationRate = 92, verification = ''AI + Satellite'', rating = 48 / 10,
       image_src = ''nigerianMangroveImg'',
       impact = ''Protecting coastal communities and biodiversity''\<rparr>,
      \<lparr>credit_id = 3, name = ''Ethiopian Highland Reforestation'',
       location = ''Amhara Region, Ethiopia'', credit_type = ''Reforestation'',
       price = 153 / 10, totalCredits = 2000, availableCredits = 1650,
       sequestrationRate = 78, verification = ''AI + Satellite'', rating = 47 / 10,
       image_src = ''ethiopianHighlandImg'',
       impact = ''Restoring traditional forest landscapes and water sources''\<rparr>,
      \<lparr>credit_id = 4, name = ''Ghanaian Cocoa Agroforestry'',
       location = ''Ashanti Region, Ghana'', credit_type = ''Agroforestry'',
       price = 71 / 5, totalCredits = 800, availableCredits = 480,
       sequestrationRate = 89, verification = ''AI + Satellite'', rating = 49 / 10,
       image_src = ''ghanaianCocoaImg'',
       impact = ''Improving cocoa farmer livelihoods through sustainable practices''\<rparr>]"

text \<open>
  Strings are lists of 8-bit characters, so \<open>toLowerCase\<close> is the ASCII one: the letters
  \<open>A\<close> to \<open>Z\<close> (codes 65 to 90) move to \<open>a\<close> to \<open>z\<close>, every other character stays. The
  catalogue's types and the four tab values are ASCII.
\<close>

definition toLowerCase_char :: "char \<Rightarrow> char" where
  "toLowerCase_char c =
     (let n = (of_char c :: nat) in if 65 \<le> n \<and> n \<le> 90 then char_of (n + 32) else c)"

definition toLowerCase :: "string \<Rightarrow> string" where
  "toLowerCase s = map toLowerCase_char s"

fun str_includes :: "string \<Rightarrow> string \<Rightarrow> bool" where
  \<comment> \<open>\<open>s.includes(t)\<close>: \<open>t\<close> occurs in \<open>s\<close> at some position; the empty \<open>t\<close> always does\<close>
  "str_includes [] t = (t = [])"
| "str_includes (c # s) t = (prefix t (c # s) \<or> str_includes s t)"

definition filteredCredits :: "string \<Rightarrow> credit list" where
  \<comment> \<open>lines 176 to 178\<close>
  "filteredCredits selectedFilter =
     (if selectedFilter = ''all'' then carbonCredits
      else filter (\<lambda>credit. str_includes (toLowerCase (credit_type credit))
                                     (toLowerCase selectedFilter)) carbonCredits)"

text \<open>
  The statistics row (lines 219 to 231) and the grid (line 244), as numbers: the calls of
  \<open>toLocaleString\<close> only format them.
\<close>

record marketplace_view =
  activeProjects :: nat
  creditsAvailable :: rat
  totalValue :: rat
  cards :: "credit list"

definition Marketplace :: "string \<Rightarrow> marketplace_view" where
  "Marketplace selectedFilter =
     \<lparr>activeProjects = length (filteredCredits selectedFilter),
      creditsAvailable =
        foldl (\<lambda>acc credit. acc + availableCredits credit) 0 (filteredCredits selectedFilter),
      totalValue =
        foldl (\<lambda>acc credit. acc + price credit * availableCredits credit) 0
          (filteredCredits selectedFilter),
      cards = filteredCredits selectedFilter\<rparr>"

text \<open>
  Two characters that agree up to the case of an ASCII letter, stated on the character
  codes and without \<open>toLowerCase\<close>: they are equal, or one is an upper-case letter and the
  other its lower-case form, 32 codes above.
\<close>

definition same_letter :: "char \<Rightarrow> char \<Rightarrow> bool" where
  "same_letter c d =
     (let m = (of_char c :: nat); n = (of_char d :: nat)
      in m = n \<or> (65 \<le> m \<and> m \<le> 90 \<and> n = m + 32) \<or> (65 \<le> n \<and> n \<le> 90 \<and> m = n + 32))"

section \<open>The operation \<open>computeMonthlyFootprint\<close> as the specification words it\<close>

text \<open>
  The specification describes the operation \<open>computeMonthlyFootprint\<close>. The definitions of
  this section follow its sentences, not the source; they are what the source's component
  is compared with. A quantity that is not numeric is \<open>None\<close>.
\<close>

datatype category = Cooking | Electricity | Transport | Waste

record ActivityInput =
  category :: category
  quantity :: "rat option"
  fuelType :: string

record EmissionFactor =
  cookingFactor :: "string \<Rightarrow> rat option"
  electricityFactor :: rat
  transportFactor :: rat
  wasteFactor :: rat

record MonthlyFootprint =
  subtotals :: MonthlyEmissions
  footprint_total :: rat

definition spec_subtotal :: "EmissionFactor \<Rightarrow> ActivityInput \<Rightarrow> failure + rat" where
  "spec_subtotal F a =
     (case quantity a of
        None \<Rightarrow> Inl InvalidInput
      | Some q \<Rightarrow>
          if q < 0 then Inl InvalidInput
          else (case category a of
                  Cooking \<Rightarrow>
                    (case cookingFactor F (fuelType a) of
                       None \<Rightarrow> Inl InvalidInput
                     | Some f \<Rightarrow> Inr (q * f))
                | Electricity \<Rightarrow> Inr (q * electricityFactor F)
                | Transport \<Rightarrow> Inr (q * transportFactor F)
                | Waste \<Rightarrow> Inr (q * wasteFactor F)))"

definition spec_category_subtotal ::
    "EmissionFactor \<Rightarrow> ActivityInput list \<Rightarrow> category \<Rightarrow> failure + rat" where
  \<comment> \<open>an absent category counts as a zero subtotal\<close>
  "spec_category_subtotal F inputs c =
     (case find (\<lambda>a. category a = c) inputs of
        None \<Rightarrow> Inr 0
      | Some a \<Rightarrow> spec_subtotal F a)"

definition spec_computeMonthlyFootprint ::
    "EmissionFactor \<Rightarrow> ActivityInput list \<Rightarrow> failure + MonthlyFootprint" where
  "spec_computeMonthlyFootprint F inputs =
     (case spec_category_subtotal F inputs Cooking of
        Inl e \<Rightarrow> Inl e
      | Inr c \<Rightarrow>
     (case spec_category_subtotal F inputs Electricity of
        Inl e \<Rightarrow> Inl e
      | Inr el \<Rightarrow>
     (case spec_category_subtotal F inputs Transport of
        Inl e \<Rightarrow> Inl e
      | Inr t \<Rightarrow>
     (case spec_category_subtotal F inputs Waste of
        Inl e \<Rightarrow> Inl e
      | Inr w \<Rightarrow>
          Inr \<lparr>subtotals = \<lparr>cooking = c, electricity = el, transport = t, waste = w\<rparr>,
               footprint_total = c + el + t + w\<rparr>))))"

text \<open>
  The factors the specification's example fixes: charcoal 9 per kg, generator 10.67 per
  hour, waste 7.5 per kg. It names no other cooking fuel and no transport factor; the
  example has no transport input, and the table stores 0 there.
\<close>

definition spec_example_factors :: EmissionFactor where
  "spec_example_factors =
     \<lparr>cookingFactor = (\<lambda>fuel. if fuel = ''charcoal'' then Some 9 else None),
      electricityFactor = 1067 / 100, transportFactor = 0, wasteFactor = 15 / 2\<rparr>"

text \<open>The part of a rendering that the specification calls the monthly footprint.\<close>

definition footprint_of :: "tracker_view \<Rightarrow> MonthlyFootprint" where
  "footprint_of v = \<lparr>subtotals = breakdown v, footprint_total = total_kg v\<rparr>"

section \<open>Properties of the emission tracker\<close>

lemma totalEmissions_sum:
  "totalEmissions m = cooking m + electricity m + transport m + waste m"
  by (simp add: totalEmissions_def Object_values_def)

lemma totalEmissions_monthly: "totalEmissions monthlyEmissions = 120"
  by (simp add: totalEmissions_sum monthlyEmissions_def)

lemma toFixed_1_tons: "toFixed_rat (Suc 0) (fl (36 / 25)) = 7 / 5"
  by code_simp

lemma toFixed_1_credits: "toFixed_rat (Suc 0) (fl (18 / 25)) = 7 / 10"
  by code_simp

text \<open>
  The doubles of lines 299 and 302 at the yearly figure 1440. The product \<open>1440 * 0.4\<close>
  rounds to 576 and the quotient to the double nearest 0.576. The cost, that double times
  15, rounds to 8.639999999999999, the double just below the one nearest 8.64; both print
  as 9.
\<close>

lemma remaining_kg_source: "fl (1440 * fl (2 / 5)) = 576"
  by code_simp

lemma offsetCost_source:
  "offsetCost 1440 = Num (fl (72 / 125) * 15) \<and>
   fl (fl (72 / 125) * 15) = 4863887597560135 / 562949953421312 \<and>
   fl (216 / 25) = 4863887597560136 / 562949953421312"
  by code_simp

lemma offsetFigures_source:
  "offsetFigures 1440 =
     \<lparr>credits_shown = Num (7 / 10), remaining_tons_shown = Num (3 / 5),
      cost_shown = Num 9\<rparr>"
  by code_simp

lemma EmissionTracker_value:
  "EmissionTracker st =
     Inr \<lparr>breakdown = monthlyEmissions, total_kg = 120, yearly_kg = 1440,
          tons_shown = Num (7 / 5),
          offset = \<lparr>credits_shown = Num (7 / 10), remaining_tons_shown = Num (3 / 5),
                    cost_shown = Num 9\<rparr>\<rparr>"
  by (simp add: EmissionTracker_def totalEmissions_monthly yearlyEmissions_def
      offsetFigures_source tonsPerYear_def js_div_def toFixed_1_tons)

text \<open>
  Claim C2. For every monthly footprint the total is exactly the sum of the four category
  subtotals: the left fold of line 25 over the four values, started at 0, is their sum,
  and the total the component shows is that sum for its own breakdown, whatever the form
  holds.
\<close>

theorem C2_total_is_sum_of_subtotals:
  "totalEmissions m = cooking m + electricity m + transport m + waste m \<and>
   (\<exists>v. EmissionTracker st = Inr v \<and>
        total_kg v = cooking (breakdown v) + electricity (breakdown v)
                     + transport (breakdown v) + waste (breakdown v))"
  by (simp add: totalEmissions_sum EmissionTracker_value monthlyEmissions_def)

text \<open>
  Claim C3. For every monthly total the yearly figure of line 26 is exactly the total times
  12, and the tonnage of lines 177 and 247 is exactly that figure divided by 1000, that is
  \<open>total * 12 / 1000\<close>: a finite number for every total, with no error case. In every
  rendering the yearly local is the shown total times 12, and the printed tonnage is this
  quotient passed through \<open>toFixed(1)\<close>.
\<close>

theorem C3_yearly_projection:
  "yearlyEmissions t = t * 12 \<and>
   tonsPerYear (yearlyEmissions t) = Num (t * 12 / 1000) \<and>
   (\<exists>v. EmissionTracker st = Inr v \<and> yearly_kg v = total_kg v * 12 \<and>
        tons_shown v = toFixed 1 (Num (total_kg v * 12 / 1000)))"
  by (simp add: yearlyEmissions_def tonsPerYear_def js_div_def EmissionTracker_value
      toFixed_1_tons)

text \<open>
  Claim C9. The figures of the emission tracker do not depend on the form: any two states
  give the same rendering. Its total is the sum over the literal \<open>monthlyEmissions\<close> (120),
  its yearly figure twelve times that (1440), and its credit figure the yearly figure
  divided by 2000 (0.72, printed with one decimal).
\<close>

theorem C9_figures_independent_of_form:
  "EmissionTracker s = EmissionTracker s' \<and>
   (\<exists>v. EmissionTracker s = Inr v \<and> EmissionTracker s' = Inr v \<and>
        total_kg v = totalEmissions monthlyEmissions \<and>
        yearly_kg v = yearlyEmissions (totalEmissions monthlyEmissions) \<and>
        creditsToOffset (yearly_kg v) = js_div (yearly_kg v) 2000 \<and>
        creditsToOffset (yearly_kg v) = Num (18 / 25) \<and>
        credits_shown (offset v) = toFixed 1 (creditsToOffset (yearly_kg v)))"
  by (simp add: EmissionTracker_value totalEmissions_monthly yearlyEmissions_def
      creditsToOffset_def js_div_def toFixed_1_credits)

section \<open>The component against \<open>computeMonthlyFootprint\<close>\<close>

lemma spec_footprint_example:
  "spec_computeMonthlyFootprint spec_example_factors
     [\<lparr>category = Cooking, quantity = Some 5, fuelType = ''charcoal''\<rparr>,
      \<lparr>category = Electricity, quantity = Some 3, fuelType = ''''\<rparr>,
      \<lparr>category = Waste, quantity = Some 2, fuelType = ''''\<rparr>] =
   Inr \<lparr>subtotals = \<lparr>cooking = 45, electricity = 3201 / 100, transport = 0, waste = 15\<rparr>,
        footprint_total = 9201 / 100\<rparr>"
  by (simp add: spec_computeMonthlyFootprint_def spec_category_subtotal_def
      spec_subtotal_def spec_example_factors_def)

text \<open>
  The form holding 10 kg of charcoal and zero generator hours and waste corresponds to the
  inputs cooking 10 (charcoal), electricity 0, waste 0, with transport absent. As the
  specification words it the footprint is 90, 0, 0, 0 with total 90. The component shows
  45, 32, 28, 15 with total 120: the cooking subtotal is not quantity times factor, a zero
  quantity does not give a zero subtotal, and the absent transport category is not zero.
\<close>

theorem C1_counterexample_subtotals_ignore_inputs:
  "spec_computeMonthlyFootprint spec_example_factors
     [\<lparr>category = Cooking, quantity = Some 10, fuelType = ''charcoal''\<rparr>,
      \<lparr>category = Electricity, quantity = Some 0, fuelType = ''''\<rparr>,
      \<lparr>category = Waste, quantity = Some 0, fuelType = ''''\<rparr>] =
   Inr \<lparr>subtotals = \<lparr>cooking = 90, electricity = 0, transport = 0, waste = 0\<rparr>,
        footprint_total = 90\<rparr> \<and>
   map_sum id footprint_of
     (EmissionTracker \<lparr>cookingFuel = ''charcoal'', fuelAmount = ''10'',
                       generatorHours = ''0'', wasteAmount = ''0''\<rparr>) =
   Inr \<lparr>subtotals = \<lparr>cooking = 45, electricity = 32, transport = 28, waste = 15\<rparr>,
        footprint_total = 120\<rparr>"
  by (simp add: spec_computeMonthlyFootprint_def spec_category_subtotal_def
      spec_subtotal_def spec_example_factors_def EmissionTracker_value footprint_of_def
      monthlyEmissions_def)

text \<open>
  Claim C1, amended. For every form state the component's footprint is the fixed breakdown
  cooking 45, electricity 32, transport 28, waste 15, whatever the quantities and the fuel
  type, and it holds all four subtotals together with their sum, 120, as the total.
\<close>

theorem C1_footprint_is_the_fixed_breakdown:
  "map_sum id footprint_of (EmissionTracker st) =
   Inr \<lparr>subtotals = \<lparr>cooking = 45, electricity = 32, transport = 28, waste = 15\<rparr>,
        footprint_total = 45 + 32 + 28 + 15\<rparr>"
  by (simp add: EmissionTracker_value footprint_of_def monthlyEmissions_def)

text \<open>
  The form holding the quantity \<open>-5\<close> for charcoal corresponds to a cooking input of
  quantity \<open>- 5\<close>. As the specification words it the operation fails with \<open>InvalidInput\<close>;
  the component renders its usual figures.
\<close>

theorem C4_counterexample_negative_quantity_accepted:
  "spec_computeMonthlyFootprint spec_example_factors
     [\<lparr>category = Cooking, quantity = Some (- 5), fuelType = ''charcoal''\<rparr>,
      \<lparr>category = Electricity, quantity = Some 3, fuelType = ''''\<rparr>,
      \<lparr>category = Waste, quantity = Some 2, fuelType = ''''\<rparr>] = Inl InvalidInput \<and>
   map_sum id footprint_of
     (EmissionTracker \<lparr>cookingFuel = ''charcoal'', fuelAmount = ''-5'',
                       generatorHours = ''3'', wasteAmount = ''2''\<rparr>) =
   Inr \<lparr>subtotals = \<lparr>cooking = 45, electricity = 32, transport = 28, waste = 15\<rparr>,
        footprint_total = 120\<rparr>"
  by (simp add: spec_computeMonthlyFootprint_def spec_category_subtotal_def
      spec_subtotal_def spec_example_factors_def EmissionTracker_value footprint_of_def
      monthlyEmissions_def)

text \<open>
  Claim C4, amended. The component's computation has no failure mode: it validates none of
  the form fields, and for every form state (negative or non-numeric quantities and any
  fuel-type string included) it returns a footprint, never \<open>InvalidInput\<close>.
\<close>

theorem C4_computation_never_fails:
  "EmissionTracker st \<noteq> Inl InvalidInput \<and>
   EmissionTracker st \<noteq> Inl InvalidConfiguration \<and>
   (\<exists>v. EmissionTracker st = Inr v \<and> footprint_of v =
      \<lparr>subtotals = monthlyEmissions, footprint_total = 120\<rparr>)"
  by (simp add: EmissionTracker_value footprint_of_def)

text \<open>
  At the form of the specification's example (5 kg of charcoal, 3 generator hours, 2 kg of
  waste) the component does not give the footprint 45, 32, 0, 15 with total 92 and yearly
  figure 1104.
\<close>

theorem C5_counterexample_example_values:
  "map_sum id (\<lambda>v. (breakdown v, total_kg v, yearly_kg v))
     (EmissionTracker \<lparr>cookingFuel = ''charcoal'', fuelAmount = ''5'',
                       generatorHours = ''3'', wasteAmount = ''2''\<rparr>) \<noteq>
   Inr (\<lparr>cooking = 45, electricity = 32, transport = 0, waste = 15\<rparr>, 92, 1104)"
  by (simp add: EmissionTracker_value monthlyEmissions_def)

text \<open>
  Claim C5, amended. For the form holding 5 kg of charcoal, 3 generator hours and 2 kg of
  waste the component gives cooking 45, electricity 32, transport 28, waste 15, total 120
  kg per month, and the yearly projection 1440 kg, that is 1.44 t, printed as 1.4.
\<close>

theorem C5_example_values_of_the_component:
  "EmissionTracker \<lparr>cookingFuel = ''charcoal'', fuelAmount = ''5'',
                     generatorHours = ''3'', wasteAmount = ''2''\<rparr> =
   Inr \<lparr>breakdown = \<lparr>cooking = 45, electricity = 32, transport = 28, waste = 15\<rparr>,
        total_kg = 120, yearly_kg = 1440, tons_shown = Num (7 / 5),
        offset = \<lparr>credits_shown = Num (7 / 10), remaining_tons_shown = Num (3 / 5),
                  cost_shown = Num 9\<rparr>\<rparr> \<and>
   tonsPerYear 1440 = Num (36 / 25)"
  by (simp add: EmissionTracker_value monthlyEmissions_def tonsPerYear_def js_div_def)

section \<open>Properties of the marketplace\<close>

lemma str_includes_sublist: "str_includes s t \<longleftrightarrow> sublist t s"
  by (induction s) (auto simp: sublist_Cons_right)

lemma str_includes_iff: "str_includes s t \<longleftrightarrow> (\<exists>ps ss. s = ps @ t @ ss)"
  by (simp add: str_includes_sublist sublist_def)

lemma toLowerCase_char_eq_iff:
  "toLowerCase_char c = toLowerCase_char d \<longleftrightarrow> same_letter c d"
proof -
  have inj: "(of_char c :: nat) = of_char d \<longleftrightarrow> c = d"
    by simp
  have up: "char_of (n + 32) = e \<longleftrightarrow> (of_char e :: nat) = n + 32"
    if "n \<le> 90" for n :: nat and e :: char
  proof
    assume "char_of (n + 32) = e"
    then have "(of_char e :: nat) = (n + 32) mod 256"
      by (auto simp: of_char_of)
    with that show "(of_char e :: nat) = n + 32"
      by simp
  next
    assume "(of_char e :: nat) = n + 32"
    then have "char_of (of_char e :: nat) = char_of (n + 32)"
      by simp
    then show "char_of (n + 32) = e"
      by simp
  qed
  show ?thesis
    unfolding toLowerCase_char_def same_letter_def Let_def
    using inj up [of "of_char c" d] up [of "of_char d" c] up [of "of_char c" "char_of (of_char d + 32)"]
    by (auto simp: of_char_of)
qed

lemma toLowerCase_eq_iff: "toLowerCase s = toLowerCase t \<longleftrightarrow> list_all2 same_letter s t"
proof -
  have "toLowerCase s = toLowerCase t \<longleftrightarrow>
        list_all2 (\<lambda>c d. toLowerCase_char c = toLowerCase_char d) s t"
    unfolding toLowerCase_def
    by (simp add: list.rel_eq [symmetric] list.rel_map del: list.rel_eq)
  then show ?thesis
    by (simp add: toLowerCase_char_eq_iff)
qed

lemma toLowerCase_contains_iff:
  "(\<exists>ps ss. toLowerCase s = ps @ toLowerCase t @ ss) \<longleftrightarrow>
   (\<exists>ps m ss. s = ps @ m @ ss \<and> list_all2 same_letter m t)"
proof
  assume "\<exists>ps ss. toLowerCase s = ps @ toLowerCase t @ ss"
  then obtain ps ss where "map toLowerCase_char s = ps @ (toLowerCase t @ ss)"
    by (auto simp: toLowerCase_def)
  then obtain us vs where s: "s = us @ vs" and "toLowerCase t @ ss = map toLowerCase_char vs"
    unfolding map_eq_append_conv by blast
  then obtain m ws where vs: "vs = m @ ws" and m: "toLowerCase t = map toLowerCase_char m"
    unfolding append_eq_map_conv by blast
  from m have "list_all2 same_letter m t"
    by (simp add: toLowerCase_eq_iff [symmetric] toLowerCase_def)
  with s vs show "\<exists>ps m ss. s = ps @ m @ ss \<and> list_all2 same_letter m t"
    by blast
next
  assume "\<exists>ps m ss. s = ps @ m @ ss \<and> list_all2 same_letter m t"
  then obtain ps m ss where s: "s = ps @ m @ ss" and "list_all2 same_letter m t"
    by blast
  then have "toLowerCase m = toLowerCase t"
    by (simp add: toLowerCase_eq_iff)
  with s have "toLowerCase s = toLowerCase ps @ toLowerCase t @ toLowerCase ss"
    by (simp add: toLowerCase_def)
  then show "\<exists>ps ss. toLowerCase s = ps @ toLowerCase t @ ss"
    by blast
qed

lemma filteredCredits_ignoring_case:
  "filteredCredits selectedFilter =
     (if selectedFilter = ''all'' then carbonCredits
      else filter (\<lambda>c. \<exists>ps m ss. credit_type c = ps @ m @ ss \<and>
                                    list_all2 same_letter m selectedFilter) carbonCredits)"
  by (simp add: filteredCredits_def str_includes_iff toLowerCase_contains_iff)

lemma foldl_add_sum_list:
  "foldl (\<lambda>acc x. acc + f x) a xs = a + sum_list (map f xs)" for a :: rat
  by (induction xs arbitrary: a) (simp_all add: add.assoc)

lemma Marketplace_statistics:
  "cards (Marketplace selectedFilter) = filteredCredits selectedFilter \<and>
   creditsAvailable (Marketplace selectedFilter) =
     sum_list (map availableCredits (filteredCredits selectedFilter)) \<and>
   totalValue (Marketplace selectedFilter) =
     sum_list (map (\<lambda>c. price c * availableCredits c) (filteredCredits selectedFilter))"
  by (simp add: Marketplace_def foldl_add_sum_list)

lemma length_carbonCredits: "length carbonCredits = 4"
  by (simp add: carbonCredits_def)

lemma filteredCredits_tabs:
  "map credit_id (filteredCredits ''all'') = [1, 2, 3, 4] \<and>
   map credit_id (filteredCredits ''agroforestry'') = [1, 4] \<and>
   map credit_id (filteredCredits ''reforestation'') = [3] \<and>
   map credit_id (filteredCredits ''coastal'') = [2] \<and>
   map credit_id (filteredCredits ''COASTAL'') = [2] \<and>
   map credit_id (filteredCredits ''solar'') = []"
  by code_simp

lemma Marketplace_tab_statistics:
  "creditsAvailable (Marketplace ''all'') = 3200 \<and>
   totalValue (Marketplace ''all'') = 47436 \<and>
   creditsAvailable (Marketplace ''agroforestry'') = 1230 \<and>
   totalValue (Marketplace ''agroforestry'') = 16191 \<and>
   creditsAvailable (Marketplace ''reforestation'') = 1650 \<and>
   totalValue (Marketplace ''reforestation'') = 25245 \<and>
   creditsAvailable (Marketplace ''coastal'') = 320 \<and>
   totalValue (Marketplace ''coastal'') = 6000"
  by code_simp

text \<open>
  The prices are decimal literals. At the catalogue's values the double products
  \<open>price * availableCredits\<close> are the integers the rational model gives, so the sums are
  exact as well.
\<close>

lemma catalogue_products_in_doubles:
  "fl (fl (25 / 2) * 750) = 9375 \<and> fl (fl (75 / 4) * 320) = 6000 \<and>
   fl (fl (153 / 10) * 1650) = 25245 \<and> fl (fl (71 / 5) * 480) = 6816"
  by code_simp

text \<open>
  Claim C10. For every selected filter the marketplace lists the whole catalogue of four
  credits when the filter is \<open>all\<close>, and otherwise exactly the credits, in catalogue order,
  whose type contains the filter case-insensitively: some contiguous part of the type
  agrees with the filter letter by letter up to the case of the letters. The statistic
  Credits Available is the sum of \<open>availableCredits\<close> over the listed credits and Total
  Value the sum of \<open>price * availableCredits\<close> over them. The four tabs list the credits
  1 to 4, the credits 1 and 4, the credit 3 and the credit 2; an upper-case filter
  lists what its lower-case form lists.
\<close>

theorem C10_marketplace_filter_and_statistics:
  "cards (Marketplace selectedFilter) = filteredCredits selectedFilter \<and>
   filteredCredits selectedFilter =
     (if selectedFilter = ''all'' then carbonCredits
      else filter (\<lambda>c. \<exists>ps m ss. credit_type c = ps @ m @ ss \<and>
                                    list_all2 same_letter m selectedFilter) carbonCredits) \<and>
   length carbonCredits = 4 \<and>
   creditsAvailable (Marketplace selectedFilter) =
     sum_list (map availableCredits (filteredCredits selectedFilter)) \<and>
   totalValue (Marketplace selectedFilter) =
     sum_list (map (\<lambda>c. price c * availableCredits c) (filteredCredits selectedFilter)) \<and>
   map credit_id (filteredCredits ''all'') = [1, 2, 3, 4] \<and>
   map credit_id (filteredCredits ''agroforestry'') = [1, 4] \<and>
   map credit_id (filteredCredits ''reforestation'') = [3] \<and>
   map credit_id (filteredCredits ''coastal'') = [2] \<and>
   map credit_id (filteredCredits ''COASTAL'') = [2] \<and>
   map credit_id (filteredCredits ''solar'') = [] \<and>
   creditsAvailable (Marketplace ''agroforestry'') = 1230 \<and>
   totalValue (Marketplace ''agroforestry'') = 16191"
  using filteredCredits_ignoring_case [of selectedFilter]
    Marketplace_statistics [of selectedFilter] length_carbonCredits filteredCredits_tabs
    Marketplace_tab_statistics
  by blast

end
